theory Spec2Isabelle
  imports Main "HOL-Library.Word"
begin

unbundle bit_operations_syntax

section \<open>Data model\<close>

text \<open>
  The backend is a Go service with three layers: the repository (a MongoDB collection of
  \<open>ShortURL\<close> documents), the key service (a Redis queue of pre-generated codes with a local
  random fallback) and the URL service that combines them. Every function below is the
  translation of the Go function of the same name, from \<open>repository/mongo_repository.go\<close>,
  \<open>services/key_service.go\<close>, \<open>validators/validators.go\<close>, the URL service and the
  URL handler. (The repository also holds an earlier copy of the key service, whose second
  tier asks an HTTP key generation service; it is \<open>key_service.go\<close>, with the local
  generator, that is embedded here.) Mutation is explicit: a function that
  touches the collection, the Redis queue or standard output returns the new value of it.
  What the outside world decides (the clock, the random bytes, whether a driver call fails,
  the result of \<open>url.Parse\<close>) is read from a record \<open>env\<close>, so every theorem quantifies
  over it.
\<close>

type_synonym byte = "8 word"
type_synonym uint = "64 word"

text \<open>
  \<open>time.Time\<close> is an instant, counted here in nanoseconds from the zero value of the type
  (for which \<open>IsZero\<close> holds). \<open>time.Duration\<close> is a signed 64-bit count of nanoseconds.
  \<open>Add\<close> is exact: the seconds of a \<open>time.Time\<close> are a 64-bit count of their own, which
  a clock reading plus a duration of at most 292 years does not leave. \<open>After\<close> is strict.
\<close>

type_synonym Time = int
type_synonym Duration = "64 word"

definition IsZero :: "Time \<Rightarrow> bool" where
  "IsZero t = (t = 0)"

definition Add :: "Time \<Rightarrow> Duration \<Rightarrow> Time" where
  "Add t d = t + sint d"

definition After :: "Time \<Rightarrow> Time \<Rightarrow> bool" where
  "After t u = (u < t)"

text \<open>
  \<open>models.ShortURL\<close>. \<open>ID\<close> is the ObjectID, \<open>0\<close> standing for the zero ObjectID that
  \<open>omitempty\<close> leaves out of the document; \<open>ExpiresAt\<close> is a pointer, \<open>None\<close> when nil;
  \<open>ClickCount\<close> is an \<open>int64\<close>, kept as an integer with its upper bound written out
  where the increment could pass it.
\<close>

record ShortURL =
  ID :: nat
  OriginalURL :: string
  ShortCode :: string
  CreatedAt :: Time
  ExpiresAt :: "Time option"
  ClickCount :: int
  IsActive :: bool

text \<open>
  Go's \<open>error\<close> values: the sentinels of the services package, \<open>redis.Nil\<close>,
  \<open>mongo.ErrNoDocuments\<close>, the errors a MongoDB server or a driver reports, and
  \<open>fmt.Errorf\<close> with \<open>%w\<close>, which wraps an error under a format string.
\<close>

datatype error =
    ErrInvalidURL
  | ErrURLNotFound
  | ErrURLExpired
  | ErrURLInactive
  | ErrKeyServiceUnavailable
  | ErrRedisUnavailable
  | RedisNil
  | ErrNoDocuments
  | DuplicateKey
  | BadValue
  | DriverError string
  | ParseError string
  | Errorf string error

text \<open>The two fields of \<open>url.URL\<close> that the validation reads.\<close>

record URL =
  Scheme :: string
  Host :: string

text \<open>
  The environment of one call. \<open>url_Parse\<close> is Go's \<open>net/url.Parse\<close>, which is not part
  of the repository and is left open. \<open>svc_Now\<close> and \<open>repo_Now\<close> are the values of the
  two \<open>time.Now()\<close> reads, in the URL service and in the repository. \<open>rand_Read\<close> gives the
  bytes that \<open>crypto/rand.Read\<close> writes. Each \<open>_fails\<close> field says whether the driver
  call of that kind fails without reaching the server (\<open>Some msg\<close>, the driver's
  message) or is answered by the server (\<open>None\<close>).
  \<open>new_ObjectID\<close> is the identifier the driver generates for an inserted document.
\<close>

record env =
  url_Parse :: "string \<Rightarrow> error + URL"
  svc_Now :: Time
  repo_Now :: Time
  rand_Read :: "nat \<Rightarrow> byte"
  find_fails :: "string option"
  insert_fails :: "string option"
  update_fails :: "string option"
  lpop_fails :: "string option"
  new_ObjectID :: nat

text \<open>
  The state outside the process: the documents of the collection in insertion order
  (each as the Go value it decodes to), the Redis lists by key, and what has been
  printed, each line as the format string and its argument.
\<close>

record world =
  collection :: "ShortURL list"
  redis :: "string \<Rightarrow> string list"
  stdout :: "(string \<times> error) list"

section \<open>Key service\<close>

text \<open>
  \<open>KeyService\<close>: the Redis client (\<open>None\<close> for a nil pointer), the URL of the key
  generation service and the name of the queue. Its HTTP client is left out: no function
  embedded here reads it.
\<close>

record KeyService =
  redisClient :: "string option"
  serviceURL :: string
  queueName :: string

text \<open>
  \<open>LPop\<close> on the Redis client: a failed call leaves the list alone, an empty (absent)
  list gives \<open>redis.Nil\<close>, otherwise the head is removed and returned.
\<close>

definition LPop :: "env \<Rightarrow> (string \<Rightarrow> string list) \<Rightarrow> string \<Rightarrow> (error + string) \<times> (string \<Rightarrow> string list)" where
  "LPop e r key =
     (case lpop_fails e of
        Some msg \<Rightarrow> (Inl (DriverError msg), r)
      | None \<Rightarrow>
         (case r key of
            [] \<Rightarrow> (Inl RedisNil, r)
          | x # xs \<Rightarrow> (Inr x, r(key := xs))))"

text \<open>
  \<open>getFromRedisQueue\<close> returns a pair \<open>(string, error)\<close>; the error is \<open>None\<close> for nil.
\<close>

definition getFromRedisQueue :: "env \<Rightarrow> KeyService \<Rightarrow> world \<Rightarrow> (string \<times> error option) \<times> world" where
  "getFromRedisQueue e s w =
     (if redisClient s = None then (('''', Some ErrRedisUnavailable), w)
      else
        (case LPop e (redis w) (queueName s) of
           (Inl err, r') \<Rightarrow>
             (if err = RedisNil then (('''', None), w\<lparr>redis := r'\<rparr>)
              else (('''', Some (Errorf ''failed to get short code from redis: %w'' err)), w\<lparr>redis := r'\<rparr>))
         | (Inr result, r') \<Rightarrow> ((result, None), w\<lparr>redis := r'\<rparr>)))"

text \<open>
  Modelled from the spec: "encode with URL-safe base64". \<open>base64.URLEncoding\<close> belongs to
  Go's standard library, not to the repository: the alphabet of RFC 4648 section 5 with
  \<open>=\<close> padding, three bytes to four characters through a 24-bit value, as the library
  computes it.
\<close>

definition encodeURL :: string where
  "encodeURL = ''ABCDEFGHIJKLMNOPQRSTUVWXYZabcdefghijklmnopqrstuvwxyz0123456789-_''"

definition encode :: "uint \<Rightarrow> char" where
  "encode i = encodeURL ! unat i"

fun EncodeToString :: "byte list \<Rightarrow> string" where
  "EncodeToString (a # b # c # rest) =
     (let val = push_bit 16 (ucast a) OR push_bit 8 (ucast b) OR ucast c
      in [encode (drop_bit 18 val AND 0x3F), encode (drop_bit 12 val AND 0x3F),
          encode (drop_bit 6 val AND 0x3F), encode (val AND 0x3F)] @ EncodeToString rest)"
| "EncodeToString [a, b] =
     (let val = push_bit 16 (ucast a) OR push_bit 8 (ucast b)
      in [encode (drop_bit 18 val AND 0x3F), encode (drop_bit 12 val AND 0x3F),
          encode (drop_bit 6 val AND 0x3F), CHR ''=''])"
| "EncodeToString [a] =
     (let val = push_bit 16 (ucast a)
      in [encode (drop_bit 18 val AND 0x3F), encode (drop_bit 12 val AND 0x3F),
          CHR ''='', CHR ''=''])"
| "EncodeToString [] = []"

text \<open>\<open>strings.TrimRight\<close>: drop every trailing character that is in the cutset.\<close>

definition TrimRight :: "string \<Rightarrow> string \<Rightarrow> string" where
  "TrimRight s cutset = rev (dropWhile (\<lambda>c. c \<in> set cutset) (rev s))"

text \<open>
  \<open>generateShortCode\<close>: six random bytes, URL-safe base64, padding trimmed, cut to eight
  characters when longer. The result of \<open>rand.Read\<close> is not inspected by the source.
\<close>

definition generateShortCode :: "env \<Rightarrow> string" where
  "generateShortCode e =
     (let b = map (rand_Read e) [0..<6];
          encoded = EncodeToString b;
          code = TrimRight encoded ''=''
      in if length code > 8 then take 8 code else code)"

definition GenerateShortCode :: "env \<Rightarrow> string" where
  "GenerateShortCode e = generateShortCode e"

text \<open>
  \<open>GetShortCode\<close>: the Redis queue first; on an error or an empty string, the local
  generator. Its Go signature returns \<open>(string, error)\<close>, kept as a sum.
\<close>

definition GetShortCode :: "env \<Rightarrow> KeyService \<Rightarrow> world \<Rightarrow> (error + string) \<times> world" where
  "GetShortCode e s w =
     (case getFromRedisQueue e s w of
        ((shortCode, err), w') \<Rightarrow>
          (if err = None \<and> shortCode \<noteq> '''' then (Inr shortCode, w')
           else (Inr (generateShortCode e), w')))"

text \<open>The characters a short code may use in a URL path: letters, digits, \<open>-\<close> and \<open>_\<close>.\<close>

definition url_safe :: "char \<Rightarrow> bool" where
  "url_safe c =
     (let n = (of_char c :: nat)
      in (65 \<le> n \<and> n \<le> 90) \<or> (97 \<le> n \<and> n \<le> 122) \<or> (48 \<le> n \<and> n \<le> 57) \<or> n = 45 \<or> n = 95)"

section \<open>Repository\<close>

text \<open>
  The three driver calls the repository makes. \<open>FindOne\<close> gives the first document that
  matches the filter, \<open>mongo.ErrNoDocuments\<close> when there is none, and the driver's error
  when the call fails. \<open>InsertOne\<close> encodes the struct as a document (the Go struct is not
  changed by that) and is refused when a stored document has the same \<open>short_code\<close> (the
  unique index the repository creates) or the same \<open>_id\<close>; otherwise the document is
  appended. \<open>UpdateOne\<close> with \<open>$inc click_count 1\<close> changes the first document with the
  code; no match is not an error; the server refuses an increment past the largest 64-bit
  integer.

  The driver's codec is library code, not the repository's. It writes a \<open>time.Time\<close> as
  a BSON date, a count of whole milliseconds: the seconds of the instant times 1000 plus
  its nanoseconds within the second divided by \<open>10^6\<close>, so the instant is cut down to
  the millisecond at or before it, and that is what a later read decodes. (The zero
  \<open>time.Time\<close> and the Unix epoch are a whole number of seconds apart, so the cut is the
  same counted from either.) A nil \<open>ExpiresAt\<close> is left out and decodes to nil. A zero
  \<open>_id\<close> is left out by \<open>omitempty\<close> and the driver generates one.
\<close>

definition bson_time :: "Time \<Rightarrow> Time" where
  "bson_time t = (t div 1000000) * 1000000"

definition bson_document :: "env \<Rightarrow> ShortURL \<Rightarrow> ShortURL" where
  "bson_document e d =
     d\<lparr>ID := (if ID d = 0 then new_ObjectID e else ID d),
       CreatedAt := bson_time (CreatedAt d),
       ExpiresAt := map_option bson_time (ExpiresAt d)\<rparr>"

definition FindOne :: "env \<Rightarrow> ShortURL list \<Rightarrow> (ShortURL \<Rightarrow> bool) \<Rightarrow> error + ShortURL" where
  "FindOne e coll flt =
     (case find_fails e of
        Some msg \<Rightarrow> Inl (DriverError msg)
      | None \<Rightarrow> (case find flt coll of None \<Rightarrow> Inl ErrNoDocuments | Some d \<Rightarrow> Inr d))"

definition InsertOne :: "env \<Rightarrow> ShortURL list \<Rightarrow> ShortURL \<Rightarrow> error option \<times> ShortURL list" where
  "InsertOne e coll d =
     (case insert_fails e of
        Some msg \<Rightarrow> (Some (DriverError msg), coll)
      | None \<Rightarrow>
         (let doc = bson_document e d
          in if ShortCode doc \<in> set (map ShortCode coll) \<or> ID doc \<in> set (map ID coll)
             then (Some DuplicateKey, coll)
             else (None, coll @ [doc])))"

fun inc_first :: "string \<Rightarrow> ShortURL list \<Rightarrow> ShortURL list" where
  "inc_first code [] = []"
| "inc_first code (d # ds) =
     (if ShortCode d = code then d\<lparr>ClickCount := ClickCount d + 1\<rparr> # ds
      else d # inc_first code ds)"

definition UpdateOne :: "env \<Rightarrow> ShortURL list \<Rightarrow> string \<Rightarrow> error option \<times> ShortURL list" where
  "UpdateOne e coll code =
     (case update_fails e of
        Some msg \<Rightarrow> (Some (DriverError msg), coll)
      | None \<Rightarrow>
         (case find (\<lambda>d. ShortCode d = code) coll of
            None \<Rightarrow> (None, coll)
          | Some d \<Rightarrow>
             (if ClickCount d = 2 ^ 63 - 1 then (Some BadValue, coll)
              else (None, inc_first code coll))))"

text \<open>
  \<open>CreateShortURL\<close> fills the defaults into the struct it was handed (the caller sees
  them through the pointer) and inserts it. It returns the error, the struct and the
  collection.
\<close>

definition CreateShortURL :: "env \<Rightarrow> ShortURL list \<Rightarrow> ShortURL \<Rightarrow> error option \<times> ShortURL \<times> ShortURL list" where
  "CreateShortURL e coll shortURL =
     (let s1 = (if IsZero (CreatedAt shortURL) then shortURL\<lparr>CreatedAt := repo_Now e\<rparr> else shortURL);
          s2 = (if \<not> IsActive s1 then s1\<lparr>IsActive := True\<rparr> else s1);
          s3 = (if ClickCount s2 = 0 then s2\<lparr>ClickCount := 0\<rparr> else s2)
      in (case InsertOne e coll s3 of (err, coll') \<Rightarrow> (err, s3, coll')))"

definition GetShortURLByCode :: "env \<Rightarrow> ShortURL list \<Rightarrow> string \<Rightarrow> error + ShortURL" where
  "GetShortURLByCode e coll shortCode =
     (case FindOne e coll (\<lambda>d. ShortCode d = shortCode) of
        Inl err \<Rightarrow> (if err = ErrNoDocuments then Inl err else Inl err)
      | Inr shortURL \<Rightarrow> Inr shortURL)"

text \<open>
  \<open>GetShortURLByOriginal\<close> returns \<open>(nil, nil)\<close> when nothing matches, so its result is a
  pair of a record pointer and an error, either of which may be nil.
\<close>

definition GetShortURLByOriginal :: "env \<Rightarrow> ShortURL list \<Rightarrow> string \<Rightarrow> ShortURL option \<times> error option" where
  "GetShortURLByOriginal e coll originalURL =
     (case FindOne e coll (\<lambda>d. OriginalURL d = originalURL) of
        Inl err \<Rightarrow> (if err = ErrNoDocuments then (None, None) else (None, Some err))
      | Inr shortURL \<Rightarrow> (Some shortURL, None))"

definition UpdateClickCount :: "env \<Rightarrow> ShortURL list \<Rightarrow> string \<Rightarrow> error option \<times> ShortURL list" where
  "UpdateClickCount e coll shortCode = UpdateOne e coll shortCode"

definition repo_GetStats :: "env \<Rightarrow> ShortURL list \<Rightarrow> string \<Rightarrow> error + ShortURL" where
  "repo_GetStats e coll shortCode = GetShortURLByCode e coll shortCode"

section \<open>URL service\<close>

text \<open>
  \<open>isValidURL\<close> of the services package and \<open>IsValidURL\<close> of the validators package:
  the string parses and both scheme and host are non-empty.
\<close>

definition isValidURL :: "env \<Rightarrow> string \<Rightarrow> bool" where
  "isValidURL e rawURL =
     (case url_Parse e rawURL of
        Inl err \<Rightarrow> False
      | Inr parsedURL \<Rightarrow> Scheme parsedURL \<noteq> '''' \<and> Host parsedURL \<noteq> '''')"

definition IsValidURL :: "env \<Rightarrow> string \<Rightarrow> bool" where
  "IsValidURL e str =
     (case url_Parse e str of
        Inl err \<Rightarrow> False
      | Inr u \<Rightarrow> Scheme u \<noteq> '''' \<and> Host u \<noteq> '''')"

text \<open>
  \<open>ShortenURL\<close>. The error of the existence lookup is discarded (\<open>existing, _ := ...\<close>).
  The struct is built with the original URL and the code only; every other field has
  Go's zero value until the expiry is set and the repository fills its defaults.
\<close>

definition ShortenURL :: "env \<Rightarrow> KeyService \<Rightarrow> world \<Rightarrow> string \<Rightarrow> Duration option \<Rightarrow> (error + ShortURL) \<times> world" where
  "ShortenURL e ks w originalURL expiresIn =
     (if \<not> isValidURL e originalURL then (Inl ErrInvalidURL, w)
      else
        (case fst (GetShortURLByOriginal e (collection w) originalURL) of
           Some existing \<Rightarrow> (Inr existing, w)
         | None \<Rightarrow>
            (case GetShortCode e ks w of
               (Inl err, w1) \<Rightarrow> (Inl (Errorf ''failed to generate short code: %w'' err), w1)
             | (Inr shortCode, w1) \<Rightarrow>
                (let shortURL0 = \<lparr>ID = 0, OriginalURL = originalURL, ShortCode = shortCode,
                                  CreatedAt = 0, ExpiresAt = None, ClickCount = 0, IsActive = False\<rparr>;
                     shortURL = (case expiresIn of
                                   None \<Rightarrow> shortURL0
                                 | Some d \<Rightarrow> shortURL0\<lparr>ExpiresAt := Some (Add (svc_Now e) d)\<rparr>)
                 in (case CreateShortURL e (collection w1) shortURL of
                       (Some err, s, coll') \<Rightarrow>
                         (Inl (Errorf ''failed to create short URL: %w'' err), w1\<lparr>collection := coll'\<rparr>)
                     | (None, s, coll') \<Rightarrow> (Inr s, w1\<lparr>collection := coll'\<rparr>))))))"

text \<open>
  \<open>GetOriginalURL\<close>. The click count is updated in the same call, after the three
  checks; an error of the update is printed and the URL is returned all the same.
\<close>

definition GetOriginalURL :: "env \<Rightarrow> world \<Rightarrow> string \<Rightarrow> (error + string) \<times> world" where
  "GetOriginalURL e w shortCode =
     (case GetShortURLByCode e (collection w) shortCode of
        Inl err \<Rightarrow> (Inl ErrURLNotFound, w)
      | Inr shortURL \<Rightarrow>
         (if \<not> IsActive shortURL then (Inl ErrURLInactive, w)
          else if (case ExpiresAt shortURL of None \<Rightarrow> False | Some t \<Rightarrow> After (svc_Now e) t)
               then (Inl ErrURLExpired, w)
          else
            (case UpdateClickCount e (collection w) shortCode of
               (Some err, coll') \<Rightarrow>
                 (Inr (OriginalURL shortURL),
                  w\<lparr>collection := coll',
                    stdout := stdout w @ [(''Failed to update click count: %v'' @ [CHR 0x0A], err)]\<rparr>)
             | (None, coll') \<Rightarrow> (Inr (OriginalURL shortURL), w\<lparr>collection := coll'\<rparr>))))"

definition GetStats :: "env \<Rightarrow> world \<Rightarrow> string \<Rightarrow> (error + ShortURL) \<times> world" where
  "GetStats e w shortCode =
     (case repo_GetStats e (collection w) shortCode of
        Inl err \<Rightarrow> (Inl ErrURLNotFound, w)
      | Inr shortURL \<Rightarrow> (Inr shortURL, w))"

section \<open>Redirect handler\<close>

text \<open>
  \<open>URLHandler.RedirectURL\<close>: the HTTP answer to \<open>GET /:code\<close>, a JSON error body with
  its status or a redirect.
\<close>

datatype response = JSON nat string | Redirect nat string

definition RedirectURL :: "env \<Rightarrow> world \<Rightarrow> string \<Rightarrow> response \<times> world" where
  "RedirectURL e w shortCode =
     (if shortCode = '''' then (JSON 400 ''short code is needed'', w)
      else
        (case GetOriginalURL e w shortCode of
           (Inl err, w') \<Rightarrow>
             (if err = ErrURLNotFound then (JSON 404 ''URL not found'', w')
              else if err = ErrURLExpired then (JSON 410 ''URL has expired'', w')
              else if err = ErrURLInactive then (JSON 410 ''URL is inactive'', w')
              else (JSON 500 ''Failed to redirect URL'', w'))
         | (Inr originalURL, w') \<Rightarrow> (Redirect 307 originalURL, w')))"

section \<open>Relations between collections\<close>

text \<open>
  The documents of a collection are identified by their position, since nothing is ever
  removed or reordered. \<open>clicks_step old new\<close>: every document of \<open>old\<close> is still there
  with the same code and a click count that is the same or one more, and every document
  added has click count \<open>0\<close>. \<open>clicks_nonneg\<close>: no click count is negative.
\<close>

definition clicks_step :: "ShortURL list \<Rightarrow> ShortURL list \<Rightarrow> bool" where
  "clicks_step old new =
     (length old \<le> length new \<and>
      list_all2 (\<lambda>a b. ShortCode b = ShortCode a \<and>
                       (ClickCount b = ClickCount a \<or> ClickCount b = ClickCount a + 1))
        old (take (length old) new) \<and>
      list_all (\<lambda>d. ClickCount d = 0) (drop (length old) new))"

definition clicks_nonneg :: "ShortURL list \<Rightarrow> bool" where
  "clicks_nonneg coll = list_all (\<lambda>d. 0 \<le> ClickCount d) coll"

section \<open>Sequences of operations\<close>

text \<open>
  The three operations of the URL service, each with the environment of its call, and
  the world after a sequence of them.
\<close>

datatype operation =
    OpShorten env KeyService string "Duration option"
  | OpResolve env string
  | OpStats env string

fun apply_operation :: "world \<Rightarrow> operation \<Rightarrow> world" where
  "apply_operation w (OpShorten e ks originalURL expiresIn) = snd (ShortenURL e ks w originalURL expiresIn)"
| "apply_operation w (OpResolve e shortCode) = snd (GetOriginalURL e w shortCode)"
| "apply_operation w (OpStats e shortCode) = snd (GetStats e w shortCode)"

definition run :: "world \<Rightarrow> operation list \<Rightarrow> world" where
  "run w ops = foldl apply_operation w ops"

section \<open>Concrete inputs\<close>

text \<open>
  The inputs at which the theorems below are exercised. \<open>example_Parse\<close> gives what
  \<open>url.Parse\<close> returns for the strings used: scheme \<open>https\<close> and host \<open>example.com\<close>
  for the absolute URL, and an empty scheme and host for every other string used here
  (\<open>not a url\<close> and \<open>example.com\<close> parse as bare paths).
\<close>

definition long_url :: string where
  "long_url = ''https://example.com/very/long/path''"

definition example_Parse :: "string \<Rightarrow> error + URL" where
  "example_Parse s =
     (if s = long_url then Inr \<lparr>Scheme = ''https'', Host = ''example.com''\<rparr>
      else Inr \<lparr>Scheme = '''', Host = ''''\<rparr>)"

definition env0 :: env where
  "env0 = \<lparr>url_Parse = example_Parse, svc_Now = 1000, repo_Now = 1001,
           rand_Read = (\<lambda>i. 0), find_fails = None, insert_fails = None,
           update_fails = None, lpop_fails = None, new_ObjectID = 7\<rparr>"

definition env_find_fails :: env where
  "env_find_fails = env0\<lparr>find_fails := Some ''connection reset''\<rparr>"

definition env_update_fails :: env where
  "env_update_fails = env0\<lparr>update_fails := Some ''connection reset''\<rparr>"

definition env_lpop_fails :: env where
  "env_lpop_fails = env0\<lparr>lpop_fails := Some ''connection refused''\<rparr>"

definition ks0 :: KeyService where
  "ks0 = \<lparr>redisClient = Some ''localhost:6379'', serviceURL = ''http://localhost:8081'',
          queueName = ''short_code_queue''\<rparr>"

definition ks_nil :: KeyService where
  "ks_nil = ks0\<lparr>redisClient := None\<rparr>"

definition link0 :: ShortURL where
  "link0 = \<lparr>ID = 1, OriginalURL = long_url, ShortCode = ''abc12345'', CreatedAt = 500,
            ExpiresAt = None, ClickCount = 3, IsActive = True\<rparr>"

definition link_inactive :: ShortURL where
  "link_inactive = \<lparr>ID = 2, OriginalURL = ''https://example.org/a'', ShortCode = ''inactive'',
                     CreatedAt = 600, ExpiresAt = Some 900, ClickCount = 0, IsActive = False\<rparr>"

definition link_expired :: ShortURL where
  "link_expired = \<lparr>ID = 3, OriginalURL = ''https://example.org/b'', ShortCode = ''expired1'',
                    CreatedAt = 700, ExpiresAt = Some 900, ClickCount = 5, IsActive = True\<rparr>"

definition no_queues :: "string \<Rightarrow> string list" where
  "no_queues key = []"

definition one_queue :: "string \<Rightarrow> string list" where
  "one_queue key = (if key = ''short_code_queue'' then [''q1w2e3r4'', ''zzzzzzzz''] else [])"

definition world0 :: world where
  "world0 = \<lparr>collection = [link0, link_inactive, link_expired], redis = no_queues, stdout = []\<rparr>"

definition world_empty :: world where
  "world_empty = \<lparr>collection = [], redis = no_queues, stdout = []\<rparr>"

definition world_queue :: world where
  "world_queue = \<lparr>collection = [], redis = one_queue, stdout = []\<rparr>"

definition one_hour :: Duration where
  "one_hour = 3600000000000"

definition created_link :: ShortURL where
  "created_link = \<lparr>ID = 0, OriginalURL = long_url, ShortCode = ''AAAAAAAA'', CreatedAt = 1001,
                   ExpiresAt = Some 3600000001000, ClickCount = 0, IsActive = True\<rparr>"

definition stored_link :: ShortURL where
  "stored_link = \<lparr>ID = 7, OriginalURL = long_url, ShortCode = ''AAAAAAAA'', CreatedAt = 0,
                  ExpiresAt = Some 3600000000000, ClickCount = 0, IsActive = True\<rparr>"

definition world_created :: world where
  "world_created = \<lparr>collection = [stored_link], redis = no_queues, stdout = []\<rparr>"

text \<open>
  Clock readings that are not whole milliseconds: the service reads 1.234567 ms and the
  repository 2.345678 ms after the zero instant. \<open>clock_link\<close> is the struct the call
  returns and \<open>clock_stored\<close> the document the collection then holds.
\<close>

definition env_clock :: env where
  "env_clock = env0\<lparr>svc_Now := 1234567, repo_Now := 2345678\<rparr>"

definition clock_link :: ShortURL where
  "clock_link = \<lparr>ID = 0, OriginalURL = long_url, ShortCode = ''AAAAAAAA'', CreatedAt = 2345678,
                 ExpiresAt = Some 3600001234567, ClickCount = 0, IsActive = True\<rparr>"

definition clock_stored :: ShortURL where
  "clock_stored = \<lparr>ID = 7, OriginalURL = long_url, ShortCode = ''AAAAAAAA'', CreatedAt = 2000000,
                   ExpiresAt = Some 3600001000000, ClickCount = 0, IsActive = True\<rparr>"

definition world_clock :: world where
  "world_clock = \<lparr>collection = [clock_stored], redis = no_queues, stdout = []\<rparr>"

section \<open>The local generator\<close>

lemma length_encodeURL: "length encodeURL = 64"
  by (simp add: encodeURL_def)

lemma list_all_encodeURL: "list_all url_safe encodeURL"
  by (simp add: encodeURL_def url_safe_def)

lemma pad_not_in_encodeURL: "CHR ''='' \<notin> set encodeURL"
  by (simp add: encodeURL_def)

lemma unat_mask_lt: "unat ((x :: uint) AND 0x3F) < 64"
proof -
  have "x AND 0x3F = take_bit 6 x"
    by (simp add: take_bit_eq_mask mask_eq_exp_minus_1)
  moreover have "unat (take_bit 6 x) < 2 ^ 6"
    using take_bit_nat_less_exp [of 6 "unat x"] by (simp add: unsigned_take_bit_eq)
  ultimately show ?thesis
    by simp
qed

lemma encode_in: "encode (x AND 0x3F) \<in> set encodeURL"
  unfolding encode_def using unat_mask_lt [of x] by (simp add: length_encodeURL)

lemma encode_url_safe: "url_safe (encode (x AND 0x3F))"
  using encode_in [of x] list_all_encodeURL by (simp add: list_all_iff)

lemma encode_not_pad: "encode (x AND 0x3F) \<noteq> CHR ''=''"
  using encode_in [of x] pad_not_in_encodeURL by metis

lemma six_bytes: "map f [0..<6] = [f 0, f 1, f 2, f 3, f 4, f 5]"
proof -
  have "[0..<6] = [0, 1, 2, 3, 4, 5::nat]"
    by (simp add: upt_rec)
  then show ?thesis by simp
qed

text \<open>
  Six bytes are two full groups of three, so the encoding has eight alphabet characters
  and no padding: trimming and cutting change nothing.
\<close>

lemma generateShortCode_eq:
  "generateShortCode e = EncodeToString (map (rand_Read e) [0..<6])"
  by (simp add: generateShortCode_def six_bytes TrimRight_def Let_def encode_not_pad)

lemma generateShortCode_length: "length (generateShortCode e) = 8"
  by (simp add: generateShortCode_eq six_bytes Let_def)

lemma generateShortCode_url_safe: "list_all url_safe (generateShortCode e)"
  by (simp add: generateShortCode_eq six_bytes Let_def encode_url_safe)

text \<open>
  Claim C8. Every code of the local generator is the URL-safe base64 encoding of six
  random bytes with the padding stripped and at most eight characters kept. For whatever
  bytes the random source gives, that is the whole encoding of the six bytes, it has
  exactly eight characters (so between six and eight, never more than eight), and every
  character is a letter, a digit, \<open>-\<close> or \<open>_\<close>.
\<close>

theorem generateShortCode_shape:
  "generateShortCode e = EncodeToString (map (rand_Read e) [0..<6]) \<and>
   length (generateShortCode e) = 8 \<and>
   6 \<le> length (generateShortCode e) \<and> length (generateShortCode e) \<le> 8 \<and>
   list_all url_safe (generateShortCode e)"
  using generateShortCode_eq [of e] generateShortCode_length [of e] generateShortCode_url_safe [of e]
  by simp

text \<open>With every random byte zero the code is \<open>AAAAAAAA\<close>.\<close>

theorem generateShortCode_shape_witness:
  "generateShortCode env0 = ''AAAAAAAA'' \<and> length (generateShortCode env0) = 8 \<and>
   list_all url_safe (generateShortCode env0)"
proof -
  note s = generateShortCode_shape [of env0]
  from s have "generateShortCode env0 = EncodeToString (map (rand_Read env0) [0..<6])"
    by blast
  then have "generateShortCode env0 = ''AAAAAAAA''"
    by (simp add: env0_def six_bytes encode_def encodeURL_def)
  with s show ?thesis
    by blast
qed

section \<open>The key service\<close>

text \<open>
  Claim C7. \<open>GetShortCode\<close> never fails: it returns a code in every state of the pool.
  When there is no Redis client, when the pop fails, or when the queue is empty, the
  code is the locally generated one and the world is unchanged. When the pop gives a
  non-empty code, that code is returned and the queue has lost exactly its head.
\<close>

theorem GetShortCode_total:
  "(\<exists>code w'. GetShortCode e s w = (Inr code, w')) \<and>
   (redisClient s = None \<or> lpop_fails e \<noteq> None \<or> redis w (queueName s) = [] \<longrightarrow>
      GetShortCode e s w = (Inr (generateShortCode e), w)) \<and>
   (\<forall>c rest. redisClient s \<noteq> None \<and> lpop_fails e = None \<and>
        redis w (queueName s) = c # rest \<and> c \<noteq> '''' \<longrightarrow>
      GetShortCode e s w = (Inr c, w\<lparr>redis := (redis w)(queueName s := rest)\<rparr>))"
  by (auto simp: GetShortCode_def getFromRedisQueue_def LPop_def split: option.splits list.splits)

text \<open>
  A nil client, a failing pop and an empty queue each give the local code and leave the
  world alone; a queue of two codes gives its first and keeps the second.
\<close>

theorem GetShortCode_total_witness:
  "GetShortCode env0 ks_nil world_queue = (Inr (generateShortCode env0), world_queue) \<and>
   GetShortCode env_lpop_fails ks0 world_queue = (Inr (generateShortCode env_lpop_fails), world_queue) \<and>
   GetShortCode env0 ks0 world0 = (Inr (generateShortCode env0), world0) \<and>
   GetShortCode env0 ks0 world_queue =
     (Inr ''q1w2e3r4'', world_queue\<lparr>redis := one_queue(''short_code_queue'' := [''zzzzzzzz''])\<rparr>)"
proof -
  have a: "redisClient ks_nil = None"
    by (simp add: ks_nil_def)
  have b: "lpop_fails env_lpop_fails \<noteq> None"
    by (simp add: env_lpop_fails_def)
  have c: "redis world0 (queueName ks0) = []"
    by (simp add: world0_def no_queues_def)
  have d: "redisClient ks0 \<noteq> None \<and> lpop_fails env0 = None \<and>
           redis world_queue (queueName ks0) = ''q1w2e3r4'' # [''zzzzzzzz''] \<and> ''q1w2e3r4'' \<noteq> ''''"
    by (simp add: ks0_def env0_def world_queue_def one_queue_def)
  have e: "redis world_queue = one_queue" "queueName ks0 = ''short_code_queue''"
    by (simp_all add: world_queue_def ks0_def)
  show ?thesis
    using a b c d e
      GetShortCode_total [of env0 ks_nil world_queue]
      GetShortCode_total [of env_lpop_fails ks0 world_queue]
      GetShortCode_total [of env0 ks0 world0]
      GetShortCode_total [of env0 ks0 world_queue]
    by simp
qed

text \<open>
  An entry of the queue that is the empty string is consumed all the same, and the local
  code is returned.
\<close>

lemma GetShortCode_empty_entry:
  "redisClient s \<noteq> None \<Longrightarrow> lpop_fails e = None \<Longrightarrow> redis w (queueName s) = '''' # rest \<Longrightarrow>
   GetShortCode e s w = (Inr (generateShortCode e), w\<lparr>redis := (redis w)(queueName s := rest)\<rparr>)"
  by (auto simp: GetShortCode_def getFromRedisQueue_def LPop_def)

lemma GetShortCode_collection:
  "GetShortCode e ks w = (res, w1) \<Longrightarrow> collection w1 = collection w \<and> stdout w1 = stdout w"
  by (auto simp: GetShortCode_def getFromRedisQueue_def LPop_def
           split: option.splits list.splits if_splits prod.splits sum.splits)

section \<open>Resolving a short code\<close>

text \<open>
  The lookup by code returns a record exactly when the driver call is answered and the
  collection holds a document with the code; the record is the first such document.
\<close>

lemma GetShortURLByCode_Inr_iff:
  "GetShortURLByCode e coll code = Inr r \<longleftrightarrow>
     find_fails e = None \<and> find (\<lambda>d. ShortCode d = code) coll = Some r"
  by (auto simp: GetShortURLByCode_def FindOne_def split: option.splits)

lemma GetShortURLByCode_none:
  "find (\<lambda>d. ShortCode d = code) coll = None \<Longrightarrow> \<exists>err. GetShortURLByCode e coll code = Inl err"
  by (auto simp: GetShortURLByCode_def FindOne_def split: option.splits)

lemma GetShortURLByCode_fails:
  "find_fails e = Some msg \<Longrightarrow> GetShortURLByCode e coll code = Inl (DriverError msg)"
  by (simp add: GetShortURLByCode_def FindOne_def)

lemma UpdateClickCount_error_unchanged:
  "UpdateClickCount e coll code = (Some err, coll') \<Longrightarrow> coll' = coll"
  by (auto simp: UpdateClickCount_def UpdateOne_def split: option.splits if_splits)

text \<open>
  The stored record for \<open>inactive\<close> is inactive and the stored record for \<open>expired1\<close>
  is active and past its expiry; when the lookup fails in the driver, \<open>GetOriginalURL\<close>
  answers \<open>ErrURLNotFound\<close> for both, neither inactive nor expired.
\<close>

theorem GetOriginalURL_checks_counterexample:
  "link_inactive \<in> set (collection world0) \<and> ShortCode link_inactive = ''inactive'' \<and>
   \<not> IsActive link_inactive \<and>
   fst (GetOriginalURL env_find_fails world0 ''inactive'') = Inl ErrURLNotFound \<and>
   link_expired \<in> set (collection world0) \<and> ShortCode link_expired = ''expired1'' \<and>
   IsActive link_expired \<and> ExpiresAt link_expired = Some 900 \<and> 900 < svc_Now env_find_fails \<and>
   fst (GetOriginalURL env_find_fails world0 ''expired1'') = Inl ErrURLNotFound"
  by (simp add: GetOriginalURL_def GetShortURLByCode_def FindOne_def
      env_find_fails_def env0_def world0_def link0_def link_inactive_def link_expired_def)

text \<open>
  Claim C1, as the code has it. For every call of \<open>GetOriginalURL\<close>: when no record
  matches the code it fails with \<open>ErrURLNotFound\<close> (whatever the driver does); otherwise,
  provided the store lookup itself does not fail, with \<open>r\<close> the first stored record that
  matches the code: when \<open>r\<close> is inactive the call fails with \<open>ErrURLInactive\<close>, whether
  or not its expiry has passed, so the inactive check comes before the expiry check; when
  \<open>r\<close> is active and its expiry is set and lies before the current time the call fails
  with \<open>ErrURLExpired\<close>. When \<open>r\<close> has no expiry the call does not fail with
  \<open>ErrURLExpired\<close>, at any current time and whether or not the lookup fails. In each
  failing case the world is unchanged.
\<close>

theorem GetOriginalURL_checks:
  "(find (\<lambda>d. ShortCode d = code) (collection w) = None \<longrightarrow>
      GetOriginalURL e w code = (Inl ErrURLNotFound, w)) \<and>
   (\<forall>r. find_fails e = None \<and> find (\<lambda>d. ShortCode d = code) (collection w) = Some r \<and>
        \<not> IsActive r \<longrightarrow>
      GetOriginalURL e w code = (Inl ErrURLInactive, w)) \<and>
   (\<forall>r t. find_fails e = None \<and> find (\<lambda>d. ShortCode d = code) (collection w) = Some r \<and>
          IsActive r \<and> ExpiresAt r = Some t \<and> t < svc_Now e \<longrightarrow>
      GetOriginalURL e w code = (Inl ErrURLExpired, w)) \<and>
   (\<forall>r. find (\<lambda>d. ShortCode d = code) (collection w) = Some r \<and> ExpiresAt r = None \<longrightarrow>
      fst (GetOriginalURL e w code) \<noteq> Inl ErrURLExpired)"
proof (intro conjI allI impI)
  assume "find (\<lambda>d. ShortCode d = code) (collection w) = None"
  then obtain err where "GetShortURLByCode e (collection w) code = Inl err"
    using GetShortURLByCode_none by blast
  then show "GetOriginalURL e w code = (Inl ErrURLNotFound, w)"
    by (simp add: GetOriginalURL_def)
next
  fix r
  assume "find_fails e = None \<and> find (\<lambda>d. ShortCode d = code) (collection w) = Some r \<and>
          \<not> IsActive r"
  then have "GetShortURLByCode e (collection w) code = Inr r \<and> \<not> IsActive r"
    by (simp add: GetShortURLByCode_Inr_iff)
  then show "GetOriginalURL e w code = (Inl ErrURLInactive, w)"
    by (simp add: GetOriginalURL_def)
next
  fix r t
  assume "find_fails e = None \<and> find (\<lambda>d. ShortCode d = code) (collection w) = Some r \<and>
          IsActive r \<and> ExpiresAt r = Some t \<and> t < svc_Now e"
  then have "GetShortURLByCode e (collection w) code = Inr r \<and> IsActive r \<and>
          ExpiresAt r = Some t \<and> t < svc_Now e"
    by (simp add: GetShortURLByCode_Inr_iff)
  then show "GetOriginalURL e w code = (Inl ErrURLExpired, w)"
    by (simp add: GetOriginalURL_def After_def)
next
  fix r
  assume h: "find (\<lambda>d. ShortCode d = code) (collection w) = Some r \<and> ExpiresAt r = None"
  show "fst (GetOriginalURL e w code) \<noteq> Inl ErrURLExpired"
  proof (cases "find_fails e")
    case None
    with h have "GetShortURLByCode e (collection w) code = Inr r \<and> ExpiresAt r = None"
      by (simp add: GetShortURLByCode_Inr_iff)
    then show ?thesis
      by (simp add: GetOriginalURL_def split: prod.splits option.splits)
  next
    case (Some msg)
    then show ?thesis
      by (simp add: GetOriginalURL_def GetShortURLByCode_fails)
  qed
qed

text \<open>
  A code nobody has, a record that is both inactive and past its expiry (the answer is
  inactive), an active record past its expiry, and a record without expiry.
\<close>

theorem GetOriginalURL_checks_witness:
  "GetOriginalURL env0 world0 ''missing1'' = (Inl ErrURLNotFound, world0) \<and>
   \<not> IsActive link_inactive \<and> ExpiresAt link_inactive = Some 900 \<and> 900 < svc_Now env0 \<and>
   GetOriginalURL env0 world0 ''inactive'' = (Inl ErrURLInactive, world0) \<and>
   GetOriginalURL env0 world0 ''expired1'' = (Inl ErrURLExpired, world0) \<and>
   fst (GetOriginalURL env0 world0 ''abc12345'') \<noteq> Inl ErrURLExpired"
proof -
  have a: "find (\<lambda>d. ShortCode d = ''missing1'') (collection world0) = None"
    by (simp add: world0_def link0_def link_inactive_def link_expired_def)
  have b: "find_fails env0 = None \<and>
           find (\<lambda>d. ShortCode d = ''inactive'') (collection world0) = Some link_inactive \<and>
           \<not> IsActive link_inactive"
    by (simp add: env0_def world0_def link0_def link_inactive_def)
  have c: "find_fails env0 = None \<and>
           find (\<lambda>d. ShortCode d = ''expired1'') (collection world0) = Some link_expired \<and>
           IsActive link_expired \<and> ExpiresAt link_expired = Some 900 \<and> 900 < svc_Now env0"
    by (simp add: env0_def world0_def link0_def link_inactive_def link_expired_def)
  have d: "find (\<lambda>d. ShortCode d = ''abc12345'') (collection world0) = Some link0 \<and>
           ExpiresAt link0 = None"
    by (simp add: world0_def link0_def)
  have e: "ExpiresAt link_inactive = Some 900"
    by (simp add: link_inactive_def)
  show ?thesis
    using a b c d e
      GetOriginalURL_checks [where code = "''missing1''" and w = world0 and e = env0]
      GetOriginalURL_checks [where code = "''inactive''" and w = world0 and e = env0]
      GetOriginalURL_checks [where code = "''expired1''" and w = world0 and e = env0]
      GetOriginalURL_checks [where code = "''abc12345''" and w = world0 and e = env0]
    by blast
qed

text \<open>
  Claim C5. When the record the lookup returns is active and not past its expiry,
  \<open>GetOriginalURL\<close> returns the record's original URL, whatever the click-count update
  does. When the update fails, its error is printed (one more line on standard output),
  it is not returned, and nothing else changes.
\<close>

theorem GetOriginalURL_increment_failure:
  "GetShortURLByCode e (collection w) code = Inr r \<and> IsActive r \<and>
   (\<forall>t. ExpiresAt r = Some t \<longrightarrow> \<not> t < svc_Now e) \<longrightarrow>
     fst (GetOriginalURL e w code) = Inr (OriginalURL r) \<and>
     (\<forall>err coll'. UpdateClickCount e (collection w) code = (Some err, coll') \<longrightarrow>
        GetOriginalURL e w code =
          (Inr (OriginalURL r),
           w\<lparr>stdout := stdout w @ [(''Failed to update click count: %v'' @ [CHR 0x0A], err)]\<rparr>))"
proof (intro impI conjI allI)
  assume h: "GetShortURLByCode e (collection w) code = Inr r \<and> IsActive r \<and>
   (\<forall>t. ExpiresAt r = Some t \<longrightarrow> \<not> t < svc_Now e)"
  then have ne: "\<not> (case ExpiresAt r of None \<Rightarrow> False | Some t \<Rightarrow> After (svc_Now e) t)"
    by (simp add: After_def split: option.splits)
  from h ne show "fst (GetOriginalURL e w code) = Inr (OriginalURL r)"
    by (simp add: GetOriginalURL_def split: prod.splits option.splits)
  fix err coll'
  assume u: "UpdateClickCount e (collection w) code = (Some err, coll')"
  then have "coll' = collection w"
    by (rule UpdateClickCount_error_unchanged)
  with h ne u show "GetOriginalURL e w code =
          (Inr (OriginalURL r),
           w\<lparr>stdout := stdout w @ [(''Failed to update click count: %v'' @ [CHR 0x0A], err)]\<rparr>)"
    by (simp add: GetOriginalURL_def)
qed

text \<open>The update fails in the driver; the URL is returned and the error is printed.\<close>

theorem GetOriginalURL_increment_failure_witness:
  "UpdateClickCount env_update_fails (collection world0) ''abc12345'' =
     (Some (DriverError ''connection reset''), collection world0) \<and>
   GetOriginalURL env_update_fails world0 ''abc12345'' =
     (Inr long_url,
      world0\<lparr>stdout := stdout world0 @
         [(''Failed to update click count: %v'' @ [CHR 0x0A], DriverError ''connection reset'')]\<rparr>)"
proof -
  have a: "GetShortURLByCode env_update_fails (collection world0) ''abc12345'' = Inr link0 \<and>
           IsActive link0 \<and> (\<forall>t. ExpiresAt link0 = Some t \<longrightarrow> \<not> t < svc_Now env_update_fails)"
    by (simp add: GetShortURLByCode_Inr_iff env_update_fails_def env0_def world0_def link0_def)
  have b: "UpdateClickCount env_update_fails (collection world0) ''abc12345'' =
     (Some (DriverError ''connection reset''), collection world0)"
    by (simp add: UpdateClickCount_def UpdateOne_def env_update_fails_def env0_def)
  have c: "OriginalURL link0 = long_url"
    by (simp add: link0_def)
  show ?thesis
    using a b c
      GetOriginalURL_increment_failure [where e = env_update_fails and w = world0
        and code = "''abc12345''" and r = link0]
    by simp
qed

text \<open>
  Claim C10. Every failing call of \<open>GetOriginalURL\<close> leaves the world as it was:
  the collection (so every click count), the Redis lists and standard output. The error
  is one of not found, inactive and expired.
\<close>

theorem GetOriginalURL_failure_frame:
  "fst (GetOriginalURL e w code) = Inl err \<longrightarrow>
     snd (GetOriginalURL e w code) = w \<and>
     (err = ErrURLNotFound \<or> err = ErrURLInactive \<or> err = ErrURLExpired)"
  by (auto simp: GetOriginalURL_def split: sum.splits if_splits prod.splits option.splits)

theorem GetOriginalURL_failure_frame_witness:
  "fst (GetOriginalURL env0 world0 ''expired1'') = Inl ErrURLExpired \<and>
   snd (GetOriginalURL env0 world0 ''expired1'') = world0"
proof -
  have "fst (GetOriginalURL env0 world0 ''expired1'') = Inl ErrURLExpired"
    by (simp add: GetOriginalURL_def GetShortURLByCode_def FindOne_def After_def
        env0_def world0_def link0_def link_inactive_def link_expired_def)
  then show ?thesis
    using GetOriginalURL_failure_frame [of env0 world0 "''expired1''" ErrURLExpired]
    by simp
qed

text \<open>
  A lookup that fails in the driver is not told apart from a missing record: with the
  record for \<open>abc12345\<close> stored and the driver call failing, \<open>GetOriginalURL\<close> answers
  \<open>ErrURLNotFound\<close>, the answer it gives for a code nobody has, and the handler
  answers 404.
\<close>

theorem lookup_failure_counterexample:
  "find_fails env_find_fails = Some ''connection reset'' \<and>
   link0 \<in> set (collection world0) \<and> ShortCode link0 = ''abc12345'' \<and>
   fst (GetOriginalURL env_find_fails world0 ''abc12345'') = Inl ErrURLNotFound \<and>
   fst (GetOriginalURL env0 world0 ''missing1'') = Inl ErrURLNotFound \<and>
   fst (RedirectURL env_find_fails world0 ''abc12345'') = JSON 404 ''URL not found''"
  by (simp add: GetOriginalURL_def RedirectURL_def GetShortURLByCode_def FindOne_def
      env_find_fails_def env0_def world0_def link0_def link_inactive_def link_expired_def)

text \<open>
  Claim C6, as the code has it. Whenever the store lookup itself fails during
  \<open>GetOriginalURL\<close>, the caller gets \<open>ErrURLNotFound\<close>, the same error as for a code
  no record matches, with the world unchanged; the redirect handler answers 404 with
  \<open>URL not found\<close>.
\<close>

theorem lookup_failure_is_NotFound:
  "find_fails e = Some msg \<longrightarrow>
     GetOriginalURL e w code = (Inl ErrURLNotFound, w) \<and>
     (code \<noteq> '''' \<longrightarrow> RedirectURL e w code = (JSON 404 ''URL not found'', w))"
  by (simp add: GetOriginalURL_def RedirectURL_def GetShortURLByCode_fails)

theorem lookup_failure_is_NotFound_witness:
  "find_fails env_find_fails = Some ''connection reset'' \<and>
   GetOriginalURL env_find_fails world0 ''abc12345'' = (Inl ErrURLNotFound, world0) \<and>
   RedirectURL env_find_fails world0 ''abc12345'' = (JSON 404 ''URL not found'', world0)"
proof -
  have "find_fails env_find_fails = Some ''connection reset''"
    by (simp add: env_find_fails_def)
  then show ?thesis
    using lookup_failure_is_NotFound [of env_find_fails "''connection reset''" world0 "''abc12345''"]
    by simp
qed

text \<open>
  The handler's last branch, status 500 with \<open>Failed to redirect URL\<close>, is never taken:
  \<open>GetOriginalURL\<close> returns no error but the three the handler names.
\<close>

lemma RedirectURL_never_500:
  "fst (RedirectURL e w code) \<noteq> JSON 500 ''Failed to redirect URL''"
  by (auto simp: RedirectURL_def GetOriginalURL_def split: sum.splits if_splits prod.splits option.splits)

section \<open>Creating a short link\<close>

lemma isValidURL_iff:
  "isValidURL e S \<longleftrightarrow> (\<exists>u. url_Parse e S = Inr u \<and> Scheme u \<noteq> '''' \<and> Host u \<noteq> '''')"
  by (auto simp: isValidURL_def split: sum.splits)

lemma IsValidURL_eq: "IsValidURL e S = isValidURL e S"
  by (simp add: IsValidURL_def isValidURL_def)

lemma ShortenURL_invalid:
  "\<not> isValidURL e S \<Longrightarrow> ShortenURL e ks w S x = (Inl ErrInvalidURL, w)"
  by (simp add: ShortenURL_def)

lemma ShortenURL_valid_not_InvalidURL:
  "isValidURL e S \<Longrightarrow> fst (ShortenURL e ks w S x) \<noteq> Inl ErrInvalidURL"
  by (auto simp: ShortenURL_def Let_def split: option.splits prod.splits sum.splits)

lemma ShortenURL_Inr_valid:
  "ShortenURL e ks w U x = (Inr r, w') \<Longrightarrow> isValidURL e U"
  by (auto simp: ShortenURL_def split: if_splits)

text \<open>
  Claim C3. For every string \<open>S\<close> and every expiry, \<open>ShortenURL\<close> fails with
  \<open>ErrInvalidURL\<close> if and only if \<open>S\<close> does not parse as a URL with a non-empty scheme
  and a non-empty host. In particular a string that parses with an empty scheme or an
  empty host is refused with \<open>ErrInvalidURL\<close>. On that failure the world is unchanged:
  no record is created and no code is taken from the pool. The validators package
  decides validity the same way. (\<open>url.Parse\<close> is whatever the environment gives.)
\<close>

theorem ShortenURL_InvalidURL_iff:
  "(fst (ShortenURL e ks w S x) = Inl ErrInvalidURL \<longleftrightarrow>
      \<not> (\<exists>u. url_Parse e S = Inr u \<and> Scheme u \<noteq> '''' \<and> Host u \<noteq> '''')) \<and>
   (\<forall>u. url_Parse e S = Inr u \<and> (Scheme u = '''' \<or> Host u = '''') \<longrightarrow>
      ShortenURL e ks w S x = (Inl ErrInvalidURL, w)) \<and>
   (fst (ShortenURL e ks w S x) = Inl ErrInvalidURL \<longrightarrow> snd (ShortenURL e ks w S x) = w) \<and>
   (IsValidURL e S \<longleftrightarrow> isValidURL e S)"
proof (intro conjI allI impI)
  show "fst (ShortenURL e ks w S x) = Inl ErrInvalidURL \<longleftrightarrow>
      \<not> (\<exists>u. url_Parse e S = Inr u \<and> Scheme u \<noteq> '''' \<and> Host u \<noteq> '''')"
    using ShortenURL_invalid [of e S ks w x] ShortenURL_valid_not_InvalidURL [of e S ks w x]
    by (auto simp: isValidURL_iff)
next
  fix u assume "url_Parse e S = Inr u \<and> (Scheme u = '''' \<or> Host u = '''')"
  then have "\<not> isValidURL e S"
    by (auto simp: isValidURL_def)
  then show "ShortenURL e ks w S x = (Inl ErrInvalidURL, w)"
    by (rule ShortenURL_invalid)
next
  assume "fst (ShortenURL e ks w S x) = Inl ErrInvalidURL"
  then have "\<not> isValidURL e S"
    using ShortenURL_valid_not_InvalidURL by blast
  then show "snd (ShortenURL e ks w S x) = w"
    by (simp add: ShortenURL_invalid)
next
  show "IsValidURL e S \<longleftrightarrow> isValidURL e S"
    by (simp add: IsValidURL_eq)
qed

text \<open>
  The two strings of the specification, which parse as bare paths, are refused and
  nothing changes; the absolute URL is not refused.
\<close>

theorem ShortenURL_InvalidURL_iff_witness:
  "ShortenURL env0 ks0 world0 ''not a url'' None = (Inl ErrInvalidURL, world0) \<and>
   ShortenURL env0 ks0 world0 ''example.com'' (Some one_hour) = (Inl ErrInvalidURL, world0) \<and>
   fst (ShortenURL env0 ks0 world0 long_url None) \<noteq> Inl ErrInvalidURL"
proof -
  have a: "url_Parse env0 ''not a url'' = Inr \<lparr>Scheme = '''', Host = ''''\<rparr>"
    by (simp add: env0_def example_Parse_def long_url_def)
  have b: "url_Parse env0 ''example.com'' = Inr \<lparr>Scheme = '''', Host = ''''\<rparr>"
    by (simp add: env0_def example_Parse_def long_url_def)
  have c: "url_Parse env0 long_url = Inr \<lparr>Scheme = ''https'', Host = ''example.com''\<rparr>"
    by (simp add: env0_def example_Parse_def)
  show ?thesis
    using a b c
      ShortenURL_InvalidURL_iff [of env0 ks0 world0 "''not a url''" None]
      ShortenURL_InvalidURL_iff [of env0 ks0 world0 "''example.com''" "Some one_hour"]
      ShortenURL_InvalidURL_iff [of env0 ks0 world0 long_url None]
    by simp
qed

lemma bson_document_fields [simp]:
  "OriginalURL (bson_document e d) = OriginalURL d"
  "ShortCode (bson_document e d) = ShortCode d"
  "ClickCount (bson_document e d) = ClickCount d"
  "IsActive (bson_document e d) = IsActive d"
  "CreatedAt (bson_document e d) = bson_time (CreatedAt d)"
  "ExpiresAt (bson_document e d) = map_option bson_time (ExpiresAt d)"
  "ID (bson_document e d) = (if ID d = 0 then new_ObjectID e else ID d)"
  by (simp_all add: bson_document_def)

text \<open>The cut of the codec: the last whole millisecond at or before the instant.\<close>

lemma bson_time_cut:
  "bson_time t \<le> t \<and> t < bson_time t + 1000000 \<and> bson_time t mod 1000000 = 0"
proof -
  have "t = (t div 1000000) * 1000000 + t mod 1000000"
    by simp
  moreover have "0 \<le> t mod 1000000 \<and> t mod 1000000 < 1000000"
    by simp
  ultimately show ?thesis
    unfolding bson_time_def by (simp add: algebra_simps) arith
qed

lemma CreateShortURL_ok:
  "CreateShortURL e coll s = (None, s', coll') \<Longrightarrow>
     coll' = coll @ [bson_document e s'] \<and>
     ShortCode s' \<notin> set (map ShortCode coll) \<and>
     s' = s\<lparr>CreatedAt := (if IsZero (CreatedAt s) then repo_Now e else CreatedAt s), IsActive := True\<rparr>"
  by (auto simp: CreateShortURL_def InsertOne_def Let_def split: option.splits if_splits)

lemma CreateShortURL_err:
  "CreateShortURL e coll s = (Some err, s', coll') \<Longrightarrow> coll' = coll"
  by (auto simp: CreateShortURL_def InsertOne_def Let_def split: option.splits if_splits)

text \<open>
  What a successful call that found no record has done: it obtained a code that no stored
  document has, returned the struct with the repository's defaults, and appended the
  document that struct encodes to.
\<close>

lemma ShortenURL_created:
  assumes none: "fst (GetShortURLByOriginal e (collection w) U) = None"
    and ok: "ShortenURL e ks w U x = (Inr r, w')"
  shows "\<exists>code w1. GetShortCode e ks w = (Inr code, w1) \<and>
           r = \<lparr>ID = 0, OriginalURL = U, ShortCode = code, CreatedAt = repo_Now e,
                ExpiresAt = (case x of None \<Rightarrow> None | Some d \<Rightarrow> Some (Add (svc_Now e) d)),
                ClickCount = 0, IsActive = True\<rparr> \<and>
           code \<notin> set (map ShortCode (collection w)) \<and>
           w' = w1\<lparr>collection := collection w @ [bson_document e r]\<rparr>"
proof -
  from ok have valid: "isValidURL e U"
    by (rule ShortenURL_Inr_valid)
  obtain res w1 where g: "GetShortCode e ks w = (res, w1)"
    by (cases "GetShortCode e ks w")
  then have c1: "collection w1 = collection w"
    using GetShortCode_collection by blast
  from g ok valid none obtain code where res: "res = Inr code"
    by (cases res) (auto simp: ShortenURL_def)
  define s where "s = (case x of
        None \<Rightarrow> \<lparr>ID = 0, OriginalURL = U, ShortCode = code,
                  CreatedAt = 0, ExpiresAt = None, ClickCount = 0, IsActive = False\<rparr>
      | Some d \<Rightarrow> \<lparr>ID = 0, OriginalURL = U, ShortCode = code,
                  CreatedAt = 0, ExpiresAt = None, ClickCount = 0, IsActive = False\<rparr>
                  \<lparr>ExpiresAt := Some (Add (svc_Now e) d)\<rparr>)"
  obtain err s' coll' where c: "CreateShortURL e (collection w1) s = (err, s', coll')"
    by (cases "CreateShortURL e (collection w1) s")
  from ok valid none g res c have err: "err = None" and r: "r = s'" and w': "w' = w1\<lparr>collection := coll'\<rparr>"
    by (auto simp: ShortenURL_def Let_def s_def split: option.splits)
  from c err have k: "coll' = collection w1 @ [bson_document e s']"
      "ShortCode s' \<notin> set (map ShortCode (collection w1))"
      "s' = s\<lparr>CreatedAt := (if IsZero (CreatedAt s) then repo_Now e else CreatedAt s), IsActive := True\<rparr>"
    using CreateShortURL_ok by blast+
  have "r = \<lparr>ID = 0, OriginalURL = U, ShortCode = code, CreatedAt = repo_Now e,
                ExpiresAt = (case x of None \<Rightarrow> None | Some d \<Rightarrow> Some (Add (svc_Now e) d)),
                ClickCount = 0, IsActive = True\<rparr>"
    using k(3) r by (simp add: s_def IsZero_def split: option.splits)
  moreover from this k r c1 have "code \<notin> set (map ShortCode (collection w))"
    "w' = w1\<lparr>collection := collection w @ [bson_document e r]\<rparr>"
    using w' by auto
  ultimately show ?thesis
    using g res by blast
qed

lemma gen0: "generateShortCode env0 = ''AAAAAAAA''"
  by (simp add: generateShortCode_eq env0_def six_bytes encode_def encodeURL_def)

lemma gen_find_fails: "generateShortCode env_find_fails = ''AAAAAAAA''"
  by (simp add: generateShortCode_eq env_find_fails_def env0_def six_bytes encode_def encodeURL_def)

lemma gen_clock: "generateShortCode env_clock = ''AAAAAAAA''"
  by (simp add: generateShortCode_eq env_clock_def env0_def six_bytes encode_def encodeURL_def)

lemma code0: "GetShortCode env0 ks0 world_empty = (Inr ''AAAAAAAA'', world_empty)"
  using gen0
  by (simp add: GetShortCode_def getFromRedisQueue_def LPop_def ks0_def world_empty_def
      no_queues_def env0_def)

lemma code_clock: "GetShortCode env_clock ks0 world_empty = (Inr ''AAAAAAAA'', world_empty)"
  using gen_clock
  by (simp add: GetShortCode_def getFromRedisQueue_def LPop_def ks0_def world_empty_def
      no_queues_def env_clock_def env0_def)

lemma sint_one_hour: "sint one_hour = 3600000000000"
  by (simp add: one_hour_def)

text \<open>
  On the empty collection, with the service's clock at 1000 and the repository's at 1001
  nanoseconds, shortening the absolute URL for one hour returns a struct created at 1001
  that expires at 1000 plus one hour, and stores it cut to the millisecond.
\<close>

lemma shorten_fresh:
  "ShortenURL env0 ks0 world_empty long_url (Some one_hour) = (Inr created_link, world_created)"
  using code0 sint_one_hour
  by (simp add: ShortenURL_def isValidURL_def GetShortURLByOriginal_def FindOne_def
      CreateShortURL_def InsertOne_def bson_document_def bson_time_def IsZero_def Add_def Let_def
      env0_def example_Parse_def world_empty_def world_created_def created_link_def
      stored_link_def)

lemma shorten_clock:
  "ShortenURL env_clock ks0 world_empty long_url (Some one_hour) = (Inr clock_link, world_clock)"
  using code_clock sint_one_hour
  by (simp add: ShortenURL_def isValidURL_def GetShortURLByOriginal_def FindOne_def
      CreateShortURL_def InsertOne_def bson_document_def bson_time_def IsZero_def Add_def Let_def
      env_clock_def env0_def example_Parse_def world_empty_def world_clock_def clock_link_def
      clock_stored_def)

text \<open>
  With the repository's clock at 2345678 ns and the service's at 1234567 ns, a successful
  creating call for one hour persists a record created at 2000000 ns that expires at
  3600001000000 ns: neither is the clock reading, nor the reading plus the hour.
\<close>

theorem ShortenURL_new_record_counterexample:
  "fst (GetShortURLByOriginal env_clock (collection world_empty) long_url) = None \<and>
   ShortenURL env_clock ks0 world_empty long_url (Some one_hour) = (Inr clock_link, world_clock) \<and>
   collection world_clock = collection world_empty @ [clock_stored] \<and>
   repo_Now env_clock = 2345678 \<and>
   CreatedAt clock_stored = 2000000 \<and>
   CreatedAt clock_stored \<noteq> repo_Now env_clock \<and>
   svc_Now env_clock + sint one_hour = 3600001234567 \<and>
   ExpiresAt clock_stored = Some 3600001000000 \<and>
   ExpiresAt clock_stored \<noteq> Some (svc_Now env_clock + sint one_hour)"
proof -
  have a: "fst (GetShortURLByOriginal env_clock (collection world_empty) long_url) = None"
    by (simp add: GetShortURLByOriginal_def FindOne_def env_clock_def env0_def world_empty_def)
  have b: "repo_Now env_clock = 2345678" "svc_Now env_clock = 1234567"
    by (simp_all add: env_clock_def env0_def)
  have c: "collection world_clock = collection world_empty @ [clock_stored]"
    by (simp add: world_clock_def world_empty_def)
  have d: "CreatedAt clock_stored = 2000000" "ExpiresAt clock_stored = Some 3600001000000"
    by (simp_all add: clock_stored_def)
  show ?thesis
    using a b c d sint_one_hour shorten_clock by simp
qed

text \<open>
  Claim C4, as the code has it. For every successful \<open>ShortenURL\<close> call whose existence
  lookup returned no record, exactly one document \<open>p\<close> is appended to the collection. It
  has the generated identifier, the submitted URL and the returned code,
  \<open>IsActive = True\<close>, \<open>ClickCount = 0\<close>, \<open>CreatedAt\<close> equal to the clock read at
  creation (in the repository) cut to the millisecond, and \<open>ExpiresAt\<close> equal to the
  service's clock read plus the duration, cut to the millisecond, when a duration was
  supplied, absent otherwise. The struct returned to the caller carries the two times
  uncut.
\<close>

theorem ShortenURL_new_record:
  "fst (GetShortURLByOriginal e (collection w) U) = None \<and>
   ShortenURL e ks w U x = (Inr r, w') \<longrightarrow>
     (\<exists>p. collection w' = collection w @ [p] \<and>
          ID p = new_ObjectID e \<and>
          OriginalURL p = U \<and>
          ShortCode p = ShortCode r \<and>
          IsActive p \<and>
          ClickCount p = 0 \<and>
          CreatedAt p = bson_time (repo_Now e) \<and>
          ExpiresAt p = (case x of None \<Rightarrow> None | Some d \<Rightarrow> Some (bson_time (svc_Now e + sint d))) \<and>
          CreatedAt r = repo_Now e \<and>
          ExpiresAt r = (case x of None \<Rightarrow> None | Some d \<Rightarrow> Some (svc_Now e + sint d)))"
proof
  assume h: "fst (GetShortURLByOriginal e (collection w) U) = None \<and>
   ShortenURL e ks w U x = (Inr r, w')"
  then obtain code w1 where
    r: "r = \<lparr>ID = 0, OriginalURL = U, ShortCode = code, CreatedAt = repo_Now e,
                ExpiresAt = (case x of None \<Rightarrow> None | Some d \<Rightarrow> Some (Add (svc_Now e) d)),
                ClickCount = 0, IsActive = True\<rparr>"
    and w': "w' = w1\<lparr>collection := collection w @ [bson_document e r]\<rparr>"
    using ShortenURL_created [of e w U ks x r w'] by blast
  have "collection w' = collection w @ [bson_document e r]"
    using w' by simp
  moreover have "ID (bson_document e r) = new_ObjectID e \<and>
      OriginalURL (bson_document e r) = U \<and>
      ShortCode (bson_document e r) = ShortCode r \<and>
      IsActive (bson_document e r) \<and>
      ClickCount (bson_document e r) = 0 \<and>
      CreatedAt (bson_document e r) = bson_time (repo_Now e) \<and>
      ExpiresAt (bson_document e r) =
        (case x of None \<Rightarrow> None | Some d \<Rightarrow> Some (bson_time (svc_Now e + sint d)))"
    using r by (simp add: Add_def split: option.splits)
  moreover have "CreatedAt r = repo_Now e \<and>
      ExpiresAt r = (case x of None \<Rightarrow> None | Some d \<Rightarrow> Some (svc_Now e + sint d))"
    using r by (simp add: Add_def split: option.splits)
  ultimately show "\<exists>p. collection w' = collection w @ [p] \<and>
          ID p = new_ObjectID e \<and>
          OriginalURL p = U \<and>
          ShortCode p = ShortCode r \<and>
          IsActive p \<and>
          ClickCount p = 0 \<and>
          CreatedAt p = bson_time (repo_Now e) \<and>
          ExpiresAt p = (case x of None \<Rightarrow> None | Some d \<Rightarrow> Some (bson_time (svc_Now e + sint d))) \<and>
          CreatedAt r = repo_Now e \<and>
          ExpiresAt r = (case x of None \<Rightarrow> None | Some d \<Rightarrow> Some (svc_Now e + sint d))"
    by blast
qed

text \<open>
  The same call on the empty collection: the one stored document is created at
  \<open>bson_time 2345678 = 2000000\<close> and expires at \<open>bson_time 3600001234567 = 3600001000000\<close>;
  the returned struct keeps 2345678 and 3600001234567.
\<close>

theorem ShortenURL_new_record_witness:
  "fst (GetShortURLByOriginal env_clock (collection world_empty) long_url) = None \<and>
   ShortenURL env_clock ks0 world_empty long_url (Some one_hour) = (Inr clock_link, world_clock) \<and>
   collection world_clock = collection world_empty @ [clock_stored] \<and>
   ID clock_stored = 7 \<and>
   IsActive clock_stored \<and>
   ClickCount clock_stored = 0 \<and>
   CreatedAt clock_stored = bson_time 2345678 \<and>
   bson_time 2345678 = 2000000 \<and>
   ExpiresAt clock_stored = Some (bson_time (1234567 + 3600000000000)) \<and>
   bson_time (1234567 + 3600000000000) = 3600001000000 \<and>
   CreatedAt clock_link = 2345678 \<and>
   ExpiresAt clock_link = Some (1234567 + 3600000000000)"
proof -
  have a: "fst (GetShortURLByOriginal env_clock (collection world_empty) long_url) = None"
    by (simp add: GetShortURLByOriginal_def FindOne_def env_clock_def env0_def world_empty_def)
  have b: "new_ObjectID env_clock = 7" "repo_Now env_clock = 2345678" "svc_Now env_clock = 1234567"
    by (simp_all add: env_clock_def env0_def)
  have c: "collection world_clock = collection world_empty @ [clock_stored]"
    by (simp add: world_clock_def world_empty_def)
  have d: "bson_time 2345678 = 2000000" "bson_time (1234567 + 3600000000000) = 3600001000000"
    by (simp_all add: bson_time_def)
  from a shorten_clock
    ShortenURL_new_record [of env_clock world_empty long_url ks0 "Some one_hour" clock_link world_clock]
  obtain p where p: "collection world_clock = collection world_empty @ [p]"
      "ID p = new_ObjectID env_clock" "IsActive p" "ClickCount p = 0"
      "CreatedAt p = bson_time (repo_Now env_clock)"
      "ExpiresAt p = Some (bson_time (svc_Now env_clock + sint one_hour))"
      "CreatedAt clock_link = repo_Now env_clock"
      "ExpiresAt clock_link = Some (svc_Now env_clock + sint one_hour)"
    by auto
  from p(1) c have "p = clock_stored"
    by simp
  with p a b c d sint_one_hour shorten_clock show ?thesis
    by simp
qed

section \<open>Shortening a known URL again\<close>

lemma find_snoc:
  "find P (xs @ [y]) = (case find P xs of None \<Rightarrow> (if P y then Some y else None) | Some x \<Rightarrow> Some x)"
  by (induction xs) simp_all

text \<open>
  The existence lookup gives the first record with the URL when the driver call is
  answered, and no record when it fails: the error is dropped by the service.
\<close>

lemma GetShortURLByOriginal_fst:
  "fst (GetShortURLByOriginal e coll U) =
     (if find_fails e = None then find (\<lambda>d. OriginalURL d = U) coll else None)"
  by (auto simp: GetShortURLByOriginal_def FindOne_def split: option.splits)

lemma ShortenURL_existing:
  "isValidURL e U \<Longrightarrow> find_fails e = None \<Longrightarrow>
   find (\<lambda>d. OriginalURL d = U) (collection w) = Some r \<Longrightarrow>
   ShortenURL e ks w U x = (Inr r, w)"
  by (simp add: ShortenURL_def GetShortURLByOriginal_fst)

lemma ShortenURL_twice:
  assumes f1: "find_fails e = None" and f2: "find_fails e' = None"
    and c1: "ShortenURL e ks w U x = (Inr r1, w1)"
    and c2: "ShortenURL e' ks' w1 U x' = (Inr r2, w2)"
  shows "ShortCode r2 = ShortCode r1 \<and> w2 = w1"
proof (cases "find (\<lambda>d. OriginalURL d = U) (collection w)")
  case (Some r)
  from c1 have "isValidURL e U" by (rule ShortenURL_Inr_valid)
  with f1 Some have "ShortenURL e ks w U x = (Inr r, w)"
    by (simp add: ShortenURL_existing)
  with c1 have eq: "r1 = r" "w1 = w" by simp_all
  from c2 have "isValidURL e' U" by (rule ShortenURL_Inr_valid)
  with f2 Some eq have "ShortenURL e' ks' w1 U x' = (Inr r, w1)"
    by (simp add: ShortenURL_existing)
  with c2 eq show ?thesis by simp
next
  case None
  with f1 have "fst (GetShortURLByOriginal e (collection w) U) = None"
    by (simp add: GetShortURLByOriginal_fst)
  with c1 obtain code w0 where
    r1: "OriginalURL r1 = U" "ShortCode r1 = code"
    and w1: "w1 = w0\<lparr>collection := collection w @ [bson_document e r1]\<rparr>"
    using ShortenURL_created [of e w U ks x r1 w1] by auto
  from None r1 w1 have "find (\<lambda>d. OriginalURL d = U) (collection w1) = Some (bson_document e r1)"
    by (simp add: find_snoc)
  moreover from c2 have "isValidURL e' U" by (rule ShortenURL_Inr_valid)
  ultimately have "ShortenURL e' ks' w1 U x' = (Inr (bson_document e r1), w1)"
    using f2 by (simp add: ShortenURL_existing)
  with c2 show ?thesis by auto
qed

text \<open>
  The stored record for the URL has code \<open>abc12345\<close> and a healthy call returns it. When
  the existence lookup fails in the driver, the same call on the same store returns a new
  record with the freshly generated code \<open>AAAAAAAA\<close> and the collection has a fourth
  document: the existing record is not returned, and the two calls differ in their code.
\<close>

theorem ShortenURL_idempotent_counterexample:
  "isValidURL env_find_fails long_url \<and>
   link0 \<in> set (collection world0) \<and> OriginalURL link0 = long_url \<and>
   ShortCode link0 = ''abc12345'' \<and>
   ShortenURL env0 ks0 world0 long_url None = (Inr link0, world0) \<and>
   fst (ShortenURL env_find_fails ks0 world0 long_url None) =
     Inr \<lparr>ID = 0, OriginalURL = long_url, ShortCode = ''AAAAAAAA'', CreatedAt = 1001,
          ExpiresAt = None, ClickCount = 0, IsActive = True\<rparr> \<and>
   length (collection (snd (ShortenURL env_find_fails ks0 world0 long_url None))) = 4"
proof -
  have g: "GetShortCode env_find_fails ks0 world0 = (Inr ''AAAAAAAA'', world0)"
    using gen_find_fails
    by (simp add: GetShortCode_def getFromRedisQueue_def LPop_def ks0_def world0_def
        no_queues_def env_find_fails_def env0_def)
  have v: "isValidURL env_find_fails long_url" "isValidURL env0 long_url"
    by (simp_all add: isValidURL_def env_find_fails_def env0_def example_Parse_def)
  have f: "fst (GetShortURLByOriginal env_find_fails (collection world0) long_url) = None"
    by (simp add: GetShortURLByOriginal_fst env_find_fails_def)
  have f0: "fst (GetShortURLByOriginal env0 (collection world0) long_url) = Some link0"
    by (simp add: GetShortURLByOriginal_fst env0_def world0_def link0_def)
  have c: "collection world0 = [link0, link_inactive, link_expired]"
    by (simp add: world0_def)
  have k: "ShortCode link0 = ''abc12345''" "ShortCode link_inactive = ''inactive''"
    "ShortCode link_expired = ''expired1''" "OriginalURL link0 = long_url"
    by (simp_all add: link0_def link_inactive_def link_expired_def)
  have i: "insert_fails env_find_fails = None" "repo_Now env_find_fails = 1001"
    by (simp_all add: env_find_fails_def env0_def)
  show ?thesis
    using g v f f0 c k i
    by (simp add: ShortenURL_def CreateShortURL_def InsertOne_def bson_document_def IsZero_def
        Let_def link0_def link_inactive_def link_expired_def env_find_fails_def env0_def)
qed

text \<open>
  Claim C2, as the code has it. For every valid absolute URL \<open>U\<close>: when a record with
  that original URL is stored and the existence lookup is answered, \<open>ShortenURL\<close> returns
  the first such record unchanged and leaves the world unchanged (no code is generated
  or taken from the pool, no record is created). Hence two consecutive successful calls
  for \<open>U\<close>, whatever their expiry arguments, return the same short code, and the second
  changes nothing, provided the existence lookup of neither call fails. (A failed lookup
  counts as "no record": the call goes on to create one.)
\<close>

theorem ShortenURL_idempotent:
  "(\<forall>r. isValidURL e U \<and> find_fails e = None \<and>
        find (\<lambda>d. OriginalURL d = U) (collection w) = Some r \<longrightarrow>
      ShortenURL e ks w U x = (Inr r, w)) \<and>
   (\<forall>r1 w1 r2 w2. find_fails e = None \<and> find_fails e' = None \<and>
        ShortenURL e ks w U x = (Inr r1, w1) \<and>
        ShortenURL e' ks' w1 U x' = (Inr r2, w2) \<longrightarrow>
      ShortCode r2 = ShortCode r1 \<and> w2 = w1)"
  using ShortenURL_existing ShortenURL_twice by blast

text \<open>
  The stored record is returned as it is; and on the empty collection the first call
  creates a record with code \<open>AAAAAAAA\<close>, the second returns that record as it is stored.
\<close>

theorem ShortenURL_idempotent_witness:
  "ShortenURL env0 ks0 world0 long_url None = (Inr link0, world0) \<and>
   ShortenURL env0 ks0 world_empty long_url (Some one_hour) = (Inr created_link, world_created) \<and>
   ShortenURL env0 ks0 world_created long_url None = (Inr stored_link, world_created) \<and>
   ShortCode stored_link = ShortCode created_link"
proof -
  have v: "isValidURL env0 long_url \<and> find_fails env0 = None"
    by (simp add: isValidURL_def env0_def example_Parse_def)
  have a: "find (\<lambda>d. OriginalURL d = long_url) (collection world0) = Some link0"
    by (simp add: world0_def link0_def)
  have b: "find (\<lambda>d. OriginalURL d = long_url) (collection world_created) = Some stored_link"
    by (simp add: world_created_def stored_link_def)
  note t1 = ShortenURL_idempotent [where e = env0 and e' = env0 and U = long_url and w = world0
      and ks = ks0 and ks' = ks0 and x = None and x' = None]
  note t2 = ShortenURL_idempotent [where e = env0 and e' = env0 and U = long_url and w = world_created
      and ks = ks0 and ks' = ks0 and x = None and x' = None]
  note t3 = ShortenURL_idempotent [where e = env0 and e' = env0 and U = long_url and w = world_empty
      and ks = ks0 and ks' = ks0 and x = "Some one_hour" and x' = None]
  from t1 v a have c1: "ShortenURL env0 ks0 world0 long_url None = (Inr link0, world0)"
    by blast
  from t2 v b have c2: "ShortenURL env0 ks0 world_created long_url None = (Inr stored_link, world_created)"
    by blast
  from t3 v shorten_fresh c2 have "ShortCode stored_link = ShortCode created_link"
    by blast
  with c1 c2 shorten_fresh show ?thesis
    by blast
qed

section \<open>Click counts\<close>

lemma clicks_step_refl: "clicks_step c c"
  by (simp add: clicks_step_def list_all2_same)

lemma clicks_step_snoc: "ClickCount p = 0 \<Longrightarrow> clicks_step c (c @ [p])"
  by (simp add: clicks_step_def list_all2_same)

lemma length_inc_first: "length (inc_first code c) = length c"
  by (induction c) simp_all

lemma list_all2_inc_first:
  "list_all2 (\<lambda>a b. ShortCode b = ShortCode a \<and>
                    (ClickCount b = ClickCount a \<or> ClickCount b = ClickCount a + 1))
     c (inc_first code c)"
  by (induction c) (simp_all add: list_all2_same)

lemma clicks_step_inc_first: "clicks_step c (inc_first code c)"
  by (simp add: clicks_step_def length_inc_first list_all2_inc_first)

lemma clicks_nonneg_inc_first: "clicks_nonneg c \<Longrightarrow> clicks_nonneg (inc_first code c)"
  by (induction c) (simp_all add: clicks_nonneg_def)

lemma clicks_nonneg_snoc: "clicks_nonneg c \<Longrightarrow> ClickCount p = 0 \<Longrightarrow> clicks_nonneg (c @ [p])"
  by (simp add: clicks_nonneg_def)

lemma UpdateClickCount_cases:
  "snd (UpdateClickCount e coll code) = coll \<or>
   snd (UpdateClickCount e coll code) = inc_first code coll"
  by (auto simp: UpdateClickCount_def UpdateOne_def split: option.splits)

lemma GetOriginalURL_collection:
  "collection (snd (GetOriginalURL e w code)) = collection w \<or>
   collection (snd (GetOriginalURL e w code)) = inc_first code (collection w)"
  using UpdateClickCount_cases [of e "collection w" code]
  by (auto simp: GetOriginalURL_def split: sum.splits prod.splits option.splits)

lemma GetStats_world: "snd (GetStats e w code) = w"
  by (simp add: GetStats_def split: sum.splits)

lemma ShortenURL_collection:
  "collection (snd (ShortenURL e ks w U x)) = collection w \<or>
   (\<exists>p. ClickCount p = 0 \<and> collection (snd (ShortenURL e ks w U x)) = collection w @ [p])"
proof (cases "ShortenURL e ks w U x")
  case (Pair res w')
  show ?thesis
  proof (cases "fst (GetShortURLByOriginal e (collection w) U)")
    case (Some r)
    then show ?thesis by (simp add: ShortenURL_def)
  next
    case None
    show ?thesis
    proof (cases res)
      case (Inr r)
      with Pair None obtain w1 where
        "ClickCount r = 0" "w' = w1\<lparr>collection := collection w @ [bson_document e r]\<rparr>"
        using ShortenURL_created [of e w U ks x r w'] by auto
      with Pair show ?thesis by simp
    next
      case (Inl err)
      obtain g w1 where g: "GetShortCode e ks w = (g, w1)"
        by (cases "GetShortCode e ks w")
      then have "collection w1 = collection w"
        using GetShortCode_collection by blast
      with Pair Inl None g have "collection w' = collection w"
        by (auto simp: ShortenURL_def Let_def split: if_splits sum.splits option.splits prod.splits
                 dest: CreateShortURL_err)
      with Pair show ?thesis by simp
    qed
  qed
qed

lemma apply_operation_clicks_nonneg:
  "clicks_nonneg (collection w) \<Longrightarrow> clicks_nonneg (collection (apply_operation w op))"
proof (cases op)
  case (OpShorten e ks U x)
  assume "clicks_nonneg (collection w)"
  then show ?thesis
    using OpShorten ShortenURL_collection [of e ks w U x] by (auto simp: clicks_nonneg_snoc)
next
  case (OpResolve e code)
  assume "clicks_nonneg (collection w)"
  then show ?thesis
    using OpResolve GetOriginalURL_collection [of e w code] by (auto simp: clicks_nonneg_inc_first)
next
  case (OpStats e code)
  assume "clicks_nonneg (collection w)"
  then show ?thesis
    using OpStats by (simp add: GetStats_world)
qed

lemma run_clicks_nonneg:
  "clicks_nonneg (collection w) \<Longrightarrow> clicks_nonneg (collection (run w ops))"
  unfolding run_def
  by (induction ops arbitrary: w) (simp_all add: apply_operation_clicks_nonneg)

text \<open>
  Claim C9. For every state of the collection and every operation of the URL service
  (\<open>ShortenURL\<close>, \<open>GetOriginalURL\<close>, \<open>GetStats\<close>), with any arguments and any
  environment: every stored record is still stored afterwards, under the same code, with
  a click count that is the same or exactly one more; every record the operation adds
  starts with click count 0; when no click count was negative before, none is negative
  afterwards; and so, after any sequence of operations on a collection that was empty,
  no click count is negative.
\<close>

theorem clickCount_monotone:
  "clicks_step (collection w) (collection (snd (ShortenURL e ks w U x))) \<and>
   clicks_step (collection w) (collection (snd (GetOriginalURL e w code))) \<and>
   clicks_step (collection w) (collection (snd (GetStats e w code))) \<and>
   (clicks_nonneg (collection w) \<longrightarrow>
      clicks_nonneg (collection (snd (ShortenURL e ks w U x))) \<and>
      clicks_nonneg (collection (snd (GetOriginalURL e w code))) \<and>
      clicks_nonneg (collection (snd (GetStats e w code)))) \<and>
   (collection w = [] \<longrightarrow> clicks_nonneg (collection (run w ops)))"
proof (intro conjI impI)
  show "clicks_step (collection w) (collection (snd (ShortenURL e ks w U x)))"
    using ShortenURL_collection [of e ks w U x] by (auto simp: clicks_step_refl clicks_step_snoc)
  show "clicks_step (collection w) (collection (snd (GetOriginalURL e w code)))"
    using GetOriginalURL_collection [of e w code] by (auto simp: clicks_step_refl clicks_step_inc_first)
  show "clicks_step (collection w) (collection (snd (GetStats e w code)))"
    by (simp add: GetStats_world clicks_step_refl)
next
  assume n: "clicks_nonneg (collection w)"
  show "clicks_nonneg (collection (snd (ShortenURL e ks w U x)))"
    using n ShortenURL_collection [of e ks w U x] by (auto simp: clicks_nonneg_snoc)
  show "clicks_nonneg (collection (snd (GetOriginalURL e w code)))"
    using n GetOriginalURL_collection [of e w code] by (auto simp: clicks_nonneg_inc_first)
  show "clicks_nonneg (collection (snd (GetStats e w code)))"
    using n by (simp add: GetStats_world)
next
  assume "collection w = []"
  then have "clicks_nonneg (collection w)"
    by (simp add: clicks_nonneg_def)
  then show "clicks_nonneg (collection (run w ops))"
    by (rule run_clicks_nonneg)
qed

text \<open>
  Resolving \<open>abc12345\<close> takes the click counts from 3, 0, 5 to 4, 0, 5.
\<close>

theorem clickCount_monotone_witness:
  "clicks_nonneg (collection world0) \<and>
   map ClickCount (collection world0) = [3, 0, 5] \<and>
   map ClickCount (collection (snd (GetOriginalURL env0 world0 ''abc12345''))) = [4, 0, 5] \<and>
   clicks_step (collection world0) (collection (snd (GetOriginalURL env0 world0 ''abc12345''))) \<and>
   clicks_nonneg (collection (snd (GetOriginalURL env0 world0 ''abc12345''))) \<and>
   collection world_empty = [] \<and>
   clicks_nonneg (collection (run world_empty
      [OpShorten env0 ks0 long_url (Some one_hour), OpResolve env0 ''AAAAAAAA'', OpStats env0 ''AAAAAAAA'']))"
proof -
  have a: "clicks_nonneg (collection world0)" "map ClickCount (collection world0) = [3, 0, 5]"
    by (simp_all add: clicks_nonneg_def world0_def link0_def link_inactive_def link_expired_def)
  have b: "map ClickCount (collection (snd (GetOriginalURL env0 world0 ''abc12345''))) = [4, 0, 5]"
    by (simp add: GetOriginalURL_def GetShortURLByCode_def FindOne_def UpdateClickCount_def
        UpdateOne_def env0_def world0_def link0_def link_inactive_def link_expired_def)
  have c: "collection world_empty = []"
    by (simp add: world_empty_def)
  show ?thesis
    using a b c
      clickCount_monotone [of world0 env0 ks0 long_url None "''abc12345''"]
      clickCount_monotone [of world_empty env0 ks0 long_url None "''abc12345''"
        "[OpShorten env0 ks0 long_url (Some one_hour), OpResolve env0 ''AAAAAAAA'', OpStats env0 ''AAAAAAAA'']"]
    by blast
qed

text \<open>What the two relations say, position by position.\<close>

lemma drop_all_zero:
  assumes le: "length old \<le> length new"
  shows "list_all (\<lambda>d. ClickCount d = 0) (drop (length old) new) \<longleftrightarrow>
      (\<forall>i. length old \<le> i \<and> i < length new \<longrightarrow> ClickCount (new ! i) = 0)"
proof
  assume "list_all (\<lambda>d. ClickCount d = 0) (drop (length old) new)"
  then have l: "\<forall>n < length new - length old. ClickCount (new ! (length old + n)) = 0"
    using le by (simp add: list_all_length)
  show "\<forall>i. length old \<le> i \<and> i < length new \<longrightarrow> ClickCount (new ! i) = 0"
  proof (intro allI impI)
    fix i assume i: "length old \<le> i \<and> i < length new"
    then have "i - length old < length new - length old" by arith
    with l have "ClickCount (new ! (length old + (i - length old))) = 0" by blast
    with i show "ClickCount (new ! i) = 0" by simp
  qed
next
  assume r: "\<forall>i. length old \<le> i \<and> i < length new \<longrightarrow> ClickCount (new ! i) = 0"
  have "\<forall>n < length new - length old. ClickCount (new ! (length old + n)) = 0"
  proof (intro allI impI)
    fix n assume "n < length new - length old"
    then have "length old \<le> length old + n \<and> length old + n < length new" by arith
    with r show "ClickCount (new ! (length old + n)) = 0" by blast
  qed
  then show "list_all (\<lambda>d. ClickCount d = 0) (drop (length old) new)"
    using le by (simp add: list_all_length)
qed

lemma take_step:
  assumes "length old \<le> length new"
  shows "list_all2 R old (take (length old) new) \<longleftrightarrow> (\<forall>i < length old. R (old ! i) (new ! i))"
  using assms by (simp add: list_all2_conv_all_nth)

lemma clicks_step_iff:
  "clicks_step old new \<longleftrightarrow>
     length old \<le> length new \<and>
     (\<forall>i < length old. ShortCode (new ! i) = ShortCode (old ! i) \<and>
        (ClickCount (new ! i) = ClickCount (old ! i) \<or> ClickCount (new ! i) = ClickCount (old ! i) + 1)) \<and>
     (\<forall>i. length old \<le> i \<and> i < length new \<longrightarrow> ClickCount (new ! i) = 0)"
proof (cases "length old \<le> length new")
  case True
  then show ?thesis
    unfolding clicks_step_def by (simp only: drop_all_zero take_step True simp_thms)
next
  case False
  then show ?thesis
    by (simp add: clicks_step_def)
qed

lemma clicks_nonneg_iff: "clicks_nonneg coll \<longleftrightarrow> (\<forall>d \<in> set coll. 0 \<le> ClickCount d)"
  by (simp add: clicks_nonneg_def list_all_iff)

end
